theory Spec2Isabelle
  imports Complex_Main
begin

section \<open>Samples, exceptions and the Python operations the detector uses\<close>

text \<open>
  The source works on NumPy float arrays. A sample is modelled as an exact real number or
  one of the three non-finite values a float division can produce; rounding and signed
  zeros are not modelled, so sums and products are exact and \<open>round\<close> and \<open>int\<close> are
  taken of exact products. Operations on samples follow IEEE 754 for the non-finite
  values: any operation on \<open>NaN\<close> is \<open>NaN\<close>, every comparison with \<open>NaN\<close>
  is false, and a NumPy division by zero returns \<open>NaN\<close> or an infinity (with a
  warning) instead of raising.
\<close>

datatype sample = is_Fin: Fin (the_fin: real) | PInf | NInf | NaN

datatype error = ValueError | IndexError | OverflowError | UnboundLocalError

fun fadd :: "sample \<Rightarrow> sample \<Rightarrow> sample" where
  "fadd NaN _ = NaN"
| "fadd _ NaN = NaN"
| "fadd PInf NInf = NaN"
| "fadd NInf PInf = NaN"
| "fadd PInf _ = PInf"
| "fadd _ PInf = PInf"
| "fadd NInf _ = NInf"
| "fadd _ NInf = NInf"
| "fadd (Fin x) (Fin y) = Fin (x + y)"

fun fneg :: "sample \<Rightarrow> sample" where
  "fneg (Fin x) = Fin (- x)"
| "fneg PInf = NInf"
| "fneg NInf = PInf"
| "fneg NaN = NaN"

fun fmul :: "sample \<Rightarrow> sample \<Rightarrow> sample" where
  "fmul NaN _ = NaN"
| "fmul _ NaN = NaN"
| "fmul (Fin x) (Fin y) = Fin (x * y)"
| "fmul (Fin x) PInf = (if x = 0 then NaN else if 0 < x then PInf else NInf)"
| "fmul (Fin x) NInf = (if x = 0 then NaN else if 0 < x then NInf else PInf)"
| "fmul PInf (Fin y) = (if y = 0 then NaN else if 0 < y then PInf else NInf)"
| "fmul NInf (Fin y) = (if y = 0 then NaN else if 0 < y then NInf else PInf)"
| "fmul PInf PInf = PInf"
| "fmul NInf NInf = PInf"
| "fmul PInf NInf = NInf"
| "fmul NInf PInf = NInf"

fun fdiv :: "sample \<Rightarrow> sample \<Rightarrow> sample" where
  "fdiv NaN _ = NaN"
| "fdiv _ NaN = NaN"
| "fdiv (Fin x) (Fin y) =
     (if y = 0 then (if x = 0 then NaN else if 0 < x then PInf else NInf) else Fin (x / y))"
| "fdiv (Fin x) PInf = Fin 0"
| "fdiv (Fin x) NInf = Fin 0"
| "fdiv PInf (Fin y) = (if 0 \<le> y then PInf else NInf)"
| "fdiv NInf (Fin y) = (if 0 \<le> y then NInf else PInf)"
| "fdiv PInf PInf = NaN"
| "fdiv PInf NInf = NaN"
| "fdiv NInf PInf = NaN"
| "fdiv NInf NInf = NaN"

fun flt :: "sample \<Rightarrow> sample \<Rightarrow> bool" where
  "flt NaN _ = False"
| "flt _ NaN = False"
| "flt (Fin x) (Fin y) = (x < y)"
| "flt (Fin x) PInf = True"
| "flt NInf (Fin y) = True"
| "flt NInf PInf = True"
| "flt _ _ = False"

fun feq :: "sample \<Rightarrow> sample \<Rightarrow> bool" where
  "feq (Fin x) (Fin y) = (x = y)"
| "feq PInf PInf = True"
| "feq NInf NInf = True"
| "feq _ _ = False"

instantiation sample :: "{plus, minus, uminus, times, inverse, ord}"
begin
definition plus_sample :: "sample \<Rightarrow> sample \<Rightarrow> sample" where
  "plus_sample a b = fadd a b"
definition uminus_sample :: "sample \<Rightarrow> sample" where
  "uminus_sample a = fneg a"
definition minus_sample :: "sample \<Rightarrow> sample \<Rightarrow> sample" where
  "minus_sample a b = fadd a (fneg b)"
definition times_sample :: "sample \<Rightarrow> sample \<Rightarrow> sample" where
  "times_sample a b = fmul a b"
definition divide_sample :: "sample \<Rightarrow> sample \<Rightarrow> sample" where
  "divide_sample a b = fdiv a b"
definition inverse_sample :: "sample \<Rightarrow> sample" where
  "inverse_sample a = fdiv (Fin 1) a"
definition less_sample :: "sample \<Rightarrow> sample \<Rightarrow> bool" where
  "less_sample a b = flt a b"
definition less_eq_sample :: "sample \<Rightarrow> sample \<Rightarrow> bool" where
  "less_eq_sample a b = (flt a b \<or> feq a b)"
instance ..
end

text \<open>Raising is a value: \<open>Inl e\<close> is the exception \<open>e\<close>, \<open>Inr x\<close> the result.\<close>

fun ebind :: "error + 'a \<Rightarrow> ('a \<Rightarrow> error + 'b) \<Rightarrow> error + 'b" where
  "ebind (Inl e) f = Inl e"
| "ebind (Inr x) f = f x"

fun efold :: "('a \<Rightarrow> 's \<Rightarrow> error + 's) \<Rightarrow> 'a list \<Rightarrow> 's \<Rightarrow> error + 's" where
  "efold f [] s = Inr s"
| "efold f (x # xs) s = (case f x s of Inl e \<Rightarrow> Inl e | Inr s' \<Rightarrow> efold f xs s')"

fun emap :: "('a \<Rightarrow> error + 'b) \<Rightarrow> 'a list \<Rightarrow> error + 'b list" where
  "emap f [] = Inr []"
| "emap f (x # xs) =
     (case f x of Inl e \<Rightarrow> Inl e
      | Inr y \<Rightarrow> (case emap f xs of Inl e \<Rightarrow> Inl e | Inr ys \<Rightarrow> Inr (y # ys)))"

text \<open>\<open>round\<close> of Python 3 rounds halves to the even neighbour; \<open>int\<close> truncates
  towards zero.\<close>

definition py_round :: "real \<Rightarrow> int" where
  "py_round x =
     (let f = \<lfloor>x\<rfloor>; d = x - of_int f
      in if d < 1 / 2 then f else if 1 / 2 < d then f + 1 else if even f then f else f + 1)"

definition py_round_sample :: "sample \<Rightarrow> error + int" where
  "py_round_sample a =
     (case a of Fin x \<Rightarrow> Inr (py_round x) | NaN \<Rightarrow> Inl ValueError | _ \<Rightarrow> Inl OverflowError)"

definition py_int :: "real \<Rightarrow> int" where
  "py_int x = (if 0 \<le> x then \<lfloor>x\<rfloor> else \<lceil>x\<rceil>)"

text \<open>\<open>xs[i]\<close>: a negative index counts from the end, anything outside raises.\<close>

definition py_get :: "'a list \<Rightarrow> int \<Rightarrow> error + 'a" where
  "py_get xs i =
     (let n = int (length xs)
      in if 0 \<le> i \<and> i < n then Inr (xs ! nat i)
         else if - n \<le> i \<and> i < 0 then Inr (xs ! nat (n + i))
         else Inl IndexError)"

definition py_set :: "'a list \<Rightarrow> int \<Rightarrow> 'a \<Rightarrow> error + 'a list" where
  "py_set xs i v =
     (let n = int (length xs)
      in if 0 \<le> i \<and> i < n then Inr (xs[nat i := v])
         else if - n \<le> i \<and> i < 0 then Inr (xs[nat (n + i) := v])
         else Inl IndexError)"

text \<open>\<open>xs[a:b]\<close>: each bound is taken from the end when negative and then clipped to
  the list; a slice never raises.\<close>

definition py_slice_bound :: "nat \<Rightarrow> int \<Rightarrow> nat" where
  "py_slice_bound n i = (if i < 0 then nat (max 0 (i + int n)) else nat (min i (int n)))"

definition py_slice :: "'a list \<Rightarrow> int \<Rightarrow> int \<Rightarrow> 'a list" where
  "py_slice xs a b =
     (let s = py_slice_bound (length xs) a; e = py_slice_bound (length xs) b
      in take (e - s) (drop s xs))"

text \<open>\<open>range(a, b)\<close> and \<open>np.arange(a, b, 1)\<close> on integers.\<close>

definition py_range :: "int \<Rightarrow> int \<Rightarrow> int list" where
  "py_range a b = [a..b - 1]"

text \<open>The builtins \<open>max\<close> and \<open>min\<close> keep the first item and replace it by a later
  one that compares greater (smaller); the empty sequence raises \<open>ValueError\<close>.\<close>

definition py_max2 :: "sample \<Rightarrow> sample \<Rightarrow> sample" where
  "py_max2 a b = (if b > a then b else a)"

definition py_max :: "sample list \<Rightarrow> error + sample" where
  "py_max xs =
     (case xs of [] \<Rightarrow> Inl ValueError
      | x # r \<Rightarrow> Inr (fold (\<lambda>item m. if item > m then item else m) r x))"

definition py_min :: "sample list \<Rightarrow> error + sample" where
  "py_min xs =
     (case xs of [] \<Rightarrow> Inl ValueError
      | x # r \<Rightarrow> Inr (fold (\<lambda>item m. if item < m then item else m) r x))"

text \<open>\<open>np.asarray(cond).nonzero()[0]\<close>: the positions where the condition holds.\<close>

definition nonzero :: "('a \<Rightarrow> bool) \<Rightarrow> 'a list \<Rightarrow> int list" where
  "nonzero P xs = map int (filter (\<lambda>i. P (xs ! i)) [0..<length xs])"

definition np_diff :: "'a::minus list \<Rightarrow> 'a list" where
  "np_diff xs = map (\<lambda>(a, b). b - a) (zip xs (tl xs))"

definition np_sum :: "sample list \<Rightarrow> sample" where
  "np_sum xs = fold (\<lambda>x acc. acc + x) xs (Fin 0)"

definition np_mean :: "sample list \<Rightarrow> sample" where
  "np_mean xs = np_sum xs / Fin (real (length xs))"

definition np_unique :: "int list \<Rightarrow> int list" where
  "np_unique xs = sort (remdups xs)"

section \<open>The filter cascade (class \<open>Pan_Tompkins_QRS\<close>)\<close>

text \<open>Each loop of the source is a fold over \<open>range(len(signal))\<close> whose state is the
  array written in place.\<close>

definition low_pass_step :: "sample list \<Rightarrow> nat \<Rightarrow> sample list \<Rightarrow> sample list" where
  "low_pass_step signal index sig =
     (let v = signal ! index;
          v = (if index \<ge> 1 then v + Fin 2 * sig ! (index - 1) else v);
          v = (if index \<ge> 2 then v - sig ! (index - 2) else v);
          v = (if index \<ge> 6 then v - Fin 2 * signal ! (index - 6) else v);
          v = (if index \<ge> 12 then v + signal ! (index - 12) else v)
      in sig[index := v])"

definition high_pass_step :: "sample list \<Rightarrow> nat \<Rightarrow> sample list \<Rightarrow> sample list" where
  "high_pass_step sig index result =
     (let v = Fin (- 1) * sig ! index;
          v = (if index \<ge> 1 then v - result ! (index - 1) else v);
          v = (if index \<ge> 16 then v + Fin 32 * sig ! (index - 16) else v);
          v = (if index \<ge> 32 then v + sig ! (index - 32) else v)
      in result[index := v])"

definition band_pass_filter :: "sample list \<Rightarrow> error + sample list" where
  "band_pass_filter signal =
     (let sig = fold (low_pass_step signal) [0..<length signal] signal;
          result = fold (high_pass_step sig) [0..<length signal] sig
      in ebind (py_max result) (\<lambda>mx.
         ebind (py_min result) (\<lambda>mn.
           let max_val = py_max2 mx (- mn)
           in Inr (map (\<lambda>x. x / max_val) result))))"

definition derivative_step :: "real \<Rightarrow> sample list \<Rightarrow> nat \<Rightarrow> sample list \<Rightarrow> sample list" where
  "derivative_step freq signal index result =
     (let v = Fin 0;
          v = (if index \<ge> 1 then v - Fin 2 * signal ! (index - 1) else v);
          v = (if index \<ge> 2 then v - signal ! (index - 2) else v);
          v = (if index \<ge> 2 \<and> int index \<le> int (length signal) - 2
               then v + Fin 2 * signal ! (index + 1) else v);
          v = (if index \<ge> 2 \<and> int index \<le> int (length signal) - 3
               then v + signal ! (index + 2) else v)
      in result[index := (v * Fin freq) / Fin 8])"

definition derivative :: "real \<Rightarrow> sample list \<Rightarrow> sample list" where
  "derivative freq signal = fold (derivative_step freq signal) [0..<length signal] signal"

definition squaring :: "sample list \<Rightarrow> sample list" where
  "squaring signal =
     fold (\<lambda>index result. result[index := signal ! index * signal ! index])
       [0..<length signal] signal"

text \<open>The integrator reads \<open>signal[j]\<close> for every \<open>j\<close> below the window size, whatever
  the length of the signal, so its accesses are checked ones.\<close>

definition mwi_first_step ::
  "sample list \<Rightarrow> int \<Rightarrow> int \<Rightarrow> sample \<times> sample list \<Rightarrow> error + sample \<times> sample list" where
  "mwi_first_step signal win_size j st =
     (case st of (sm, result) \<Rightarrow>
        ebind (py_get signal j) (\<lambda>x.
          let sm = sm + x / Fin (of_int win_size)
          in ebind (py_set result j sm) (\<lambda>result. Inr (sm, result))))"

definition mwi_slide_step ::
  "sample list \<Rightarrow> int \<Rightarrow> int \<Rightarrow> sample \<times> sample list \<Rightarrow> error + sample \<times> sample list" where
  "mwi_slide_step signal win_size index st =
     (case st of (sm, result) \<Rightarrow>
        ebind (py_get signal index) (\<lambda>x.
          let sm = sm + x / Fin (of_int win_size)
          in ebind (py_get signal (index - win_size)) (\<lambda>y.
               let sm = sm - y / Fin (of_int win_size)
               in ebind (py_set result index sm) (\<lambda>result. Inr (sm, result)))))"

definition moving_window_integration :: "real \<Rightarrow> sample list \<Rightarrow> error + sample list" where
  "moving_window_integration freq signal =
     (let win_size = py_round (0.150 * freq)
      in ebind (efold (mwi_first_step signal win_size) (py_range 0 win_size) (Fin 0, signal))
           (\<lambda>st. ebind (efold (mwi_slide_step signal win_size)
                           (py_range win_size (int (length signal))) st)
                    (\<lambda>st. Inr (snd st))))"

record qrs_dict =
  bpass :: "sample list"
  der :: "sample list"
  sqr :: "sample list"
  mwin :: "sample list"

definition solve :: "real \<Rightarrow> sample list \<Rightarrow> error + qrs_dict" where
  "solve freq signal =
     ebind (band_pass_filter signal) (\<lambda>b.
       let d = derivative freq b; s = squaring d
       in ebind (moving_window_integration freq s) (\<lambda>m.
            Inr \<lparr>bpass = b, der = d, sqr = s, mwin = m\<rparr>))"

section \<open>The adaptive detector (class \<open>R_peak_extractor\<close>)\<close>

text \<open>The object's fields are one record, threaded through the methods. The local
  variable \<open>x_max\<close> of \<open>ecg_searchback\<close> lives across the iterations of its loop,
  so it is part of that loop's state.\<close>

record R_peak_extractor =
  RR1 :: "sample list"
  RR2 :: "sample list"
  probable_peaks :: "int list"
  r_locs :: "int list"
  peaks :: "int list"
  result :: "int list"
  SPKI :: sample
  NPKI :: sample
  Threshold_I1 :: sample
  Threshold_I2 :: sample
  SPKF :: sample
  NPKF :: sample
  Threshold_F1 :: sample
  Threshold_F2 :: sample
  T_wave :: bool
  m_win :: "sample list"
  b_pass :: "sample list"
  samp_freq :: real
  signal :: "sample list"
  win_150ms :: int
  RR_Low_Limit :: sample
  RR_High_Limit :: sample
  RR_Missed_Limit :: sample
  RR_Average1 :: sample

datatype x_max_var = Unbound | IsNone | Pos int

definition R_peak_extractor_init :: "sample list \<Rightarrow> real \<Rightarrow> qrs_dict \<Rightarrow> R_peak_extractor" where
  "R_peak_extractor_init signal' samp_freq' qrs_dict =
     \<lparr>RR1 = [], RR2 = [], probable_peaks = [], r_locs = [], peaks = [], result = [],
      SPKI = Fin 0, NPKI = Fin 0, Threshold_I1 = Fin 0, Threshold_I2 = Fin 0,
      SPKF = Fin 0, NPKF = Fin 0, Threshold_F1 = Fin 0, Threshold_F2 = Fin 0,
      T_wave = False, m_win = mwin qrs_dict, b_pass = bpass qrs_dict,
      samp_freq = samp_freq', signal = signal', win_150ms = py_round (0.15 * samp_freq'),
      RR_Low_Limit = Fin 0, RR_High_Limit = Fin 0, RR_Missed_Limit = Fin 0,
      RR_Average1 = Fin 0\<rparr>"

text \<open>\<open>scipy.signal.fftconvolve(m_win, np.full((25,), 1) / 25, mode='same')\<close> is a
  library routine computed in floating point; it is the parameter \<open>conv\<close>.\<close>

definition approx_peak_step :: "sample list \<Rightarrow> int \<Rightarrow> int list \<Rightarrow> error + int list" where
  "approx_peak_step slopes i pk =
     ebind (py_get slopes i) (\<lambda>a.
     ebind (py_get slopes (i - 1)) (\<lambda>b.
       if a > b
       then ebind (py_get slopes (i + 1)) (\<lambda>c. if c < a then Inr (pk @ [i]) else Inr pk)
       else Inr pk))"

definition approx_peak ::
  "(sample list \<Rightarrow> sample list) \<Rightarrow> R_peak_extractor \<Rightarrow> error + R_peak_extractor" where
  "approx_peak conv st =
     (let slopes = conv (m_win st)
      in ebind (efold (approx_peak_step slopes)
                  (py_range (py_round (0.5 * samp_freq st) + 1) (int (length slopes) - 1))
                  (peaks st))
           (\<lambda>pk. Inr (st\<lparr>peaks := pk\<rparr>)))"

definition adjust_rr_step ::
  "int \<Rightarrow> R_peak_extractor \<times> sample \<Rightarrow> error + R_peak_extractor \<times> sample" where
  "adjust_rr_step i acc =
     (case acc of (st, RR_Average2) \<Rightarrow>
        ebind (py_get (RR1 st) i) (\<lambda>r.
          if RR_Low_Limit st < r \<and> r < RR_High_Limit st
          then (let st = st\<lparr>RR2 := RR2 st @ [r]\<rparr>
                in if length (RR2 st) > 8
                   then (let st = st\<lparr>RR2 := tl (RR2 st)\<rparr> in Inr (st, np_mean (RR2 st)))
                   else Inr (st, RR_Average2))
          else Inr (st, RR_Average2)))"

definition adjust_rr_interval :: "int \<Rightarrow> R_peak_extractor \<Rightarrow> error + R_peak_extractor" where
  "adjust_rr_interval ind st =
     (let st = st\<lparr>RR1 := map (\<lambda>d. Fin (of_int d) / Fin (samp_freq st))
                          (np_diff (py_slice (peaks st) (max 0 (ind - 8)) (ind + 1)))\<rparr>;
          st = st\<lparr>RR_Average1 := np_mean (RR1 st)\<rparr>
      in ebind (if ind \<ge> 8 then efold adjust_rr_step (py_range 0 8) (st, RR_Average1 st)
                else Inr (st, RR_Average1 st))
           (\<lambda>acc. case acc of (st, RR_Average2) \<Rightarrow>
              if length (RR2 st) > 7 \<or> ind < 8
              then Inr (st\<lparr>RR_Low_Limit := Fin 0.92 * RR_Average2,
                           RR_High_Limit := Fin 1.16 * RR_Average2,
                           RR_Missed_Limit := Fin 1.66 * RR_Average2\<rparr>)
              else Inr st))"

text \<open>Both windows of \<open>searchback\<close> are searched in the same way: the positions of the
  window above the threshold are collected, and the first of them whose value equals the
  maximum over them is kept. The position is an offset into the window. A loop that ends
  without assigning leaves the variable unbound, and the test that follows raises.\<close>

definition first_max_above :: "sample list \<Rightarrow> sample \<Rightarrow> error + int option" where
  "first_max_above win_rr threshold =
     (let coord = nonzero (\<lambda>v. v > threshold) win_rr
      in if length coord > 0
         then ebind (emap (py_get win_rr) coord) (\<lambda>vals.
              ebind (py_max vals) (\<lambda>mx.
                case find (\<lambda>pv. feq (snd pv) mx) (zip coord vals) of
                  Some pv \<Rightarrow> Inr (Some (fst pv))
                | None \<Rightarrow> Inl UnboundLocalError))
         else Inr None)"

definition searchback ::
  "int \<Rightarrow> sample \<Rightarrow> int \<Rightarrow> R_peak_extractor \<Rightarrow> error + R_peak_extractor" where
  "searchback peak_val RRn sb_win st =
     (if RRn > RR_Missed_Limit st
      then (let win_rr = py_slice (m_win st) (peak_val - sb_win + 1) (peak_val + 1)
            in ebind (first_max_above win_rr (Threshold_I1 st)) (\<lambda>x_max.
               case x_max of
                 None \<Rightarrow> Inr st
               | Some x_max \<Rightarrow>
                   ebind (py_get (m_win st) x_max) (\<lambda>m.
                     let st = st\<lparr>SPKI := Fin 0.25 * m + Fin 0.75 * SPKI st\<rparr>;
                         st = st\<lparr>Threshold_I1 := NPKI st + Fin 0.25 * (SPKI st - NPKI st)\<rparr>;
                         st = st\<lparr>Threshold_I2 := Fin 0.5 * Threshold_I1 st\<rparr>;
                         win_rr = py_slice (b_pass st) (x_max - win_150ms st)
                                    (min (int (length (b_pass st)) - 1) x_max)
                     in ebind (first_max_above win_rr (Threshold_F1 st)) (\<lambda>r_max.
                        case r_max of
                          None \<Rightarrow> Inr st
                        | Some r_max \<Rightarrow>
                            ebind (py_get (b_pass st) r_max) (\<lambda>b.
                              if b > Threshold_F2 st
                              then (let st = st\<lparr>SPKF := Fin 0.25 * b + Fin 0.75 * SPKF st\<rparr>;
                                        st = st\<lparr>Threshold_F1 :=
                                                   NPKF st + Fin 0.25 * (SPKF st - NPKF st)\<rparr>;
                                        st = st\<lparr>Threshold_F2 := Fin 0.5 * Threshold_F1 st\<rparr>
                                    in Inr (st\<lparr>r_locs := r_locs st @ [r_max]\<rparr>))
                              else Inr st)))))
      else Inr st)"

definition max_slope :: "sample list \<Rightarrow> int \<Rightarrow> int \<Rightarrow> error + sample" where
  "max_slope xs centre w = py_max (np_diff (py_slice xs (centre - py_round (of_int w / 2)) (centre + 1)))"

definition find_t_wave ::
  "int \<Rightarrow> sample \<Rightarrow> int \<Rightarrow> int \<Rightarrow> R_peak_extractor \<Rightarrow> error + R_peak_extractor" where
  "find_t_wave peak_val RRn ind prev_ind st =
     ebind (py_get (m_win st) peak_val) (\<lambda>m.
       if m \<ge> Threshold_I1 st
       then ebind (if ind > 0 \<and> Fin 0.20 < RRn \<and> RRn < Fin 0.36
                   then ebind (max_slope (m_win st) peak_val (win_150ms st)) (\<lambda>curr_slope.
                        ebind (py_get (peaks st) prev_ind) (\<lambda>prev_peak.
                        ebind (max_slope (m_win st) prev_peak (win_150ms st)) (\<lambda>last_slope.
                          if curr_slope < Fin 0.5 * last_slope
                          then Inr (st\<lparr>T_wave := True,
                                       NPKI := Fin 0.125 * m + Fin 0.875 * NPKI st\<rparr>)
                          else Inr st)))
                   else Inr st)
              (\<lambda>st.
                 if \<not> T_wave st
                 then ebind (py_get (probable_peaks st) ind) (\<lambda>p.
                        if Fin (of_int p) > Threshold_F1 st
                        then (let st = st\<lparr>SPKI := Fin 0.125 * m + Fin 0.875 * SPKI st\<rparr>
                              in ebind (py_get (b_pass st) ind) (\<lambda>b.
                                   Inr (st\<lparr>SPKF := Fin 0.125 * b + Fin 0.875 * SPKF st,
                                           r_locs := r_locs st @ [p]\<rparr>)))
                        else (let st = st\<lparr>SPKI := Fin 0.125 * m + Fin 0.875 * SPKI st\<rparr>
                              in ebind (py_get (b_pass st) ind) (\<lambda>b.
                                   Inr (st\<lparr>NPKF := Fin 0.125 * b + Fin 0.875 * NPKF st\<rparr>))))
                 else Inr st)
       else if m < Threshold_I1 st \<or> (Threshold_I1 st < m \<and> m < Threshold_I2 st)
       then (let st = st\<lparr>NPKI := Fin 0.125 * m + Fin 0.875 * NPKI st\<rparr>
             in ebind (py_get (b_pass st) ind) (\<lambda>b.
                  Inr (st\<lparr>NPKF := Fin 0.125 * b + Fin 0.875 * NPKF st\<rparr>)))
       else Inr st)"

definition adjust_thresholds :: "int \<Rightarrow> int \<Rightarrow> R_peak_extractor \<Rightarrow> error + R_peak_extractor" where
  "adjust_thresholds peak_val ind st =
     ebind (py_get (m_win st) peak_val) (\<lambda>m.
       if m \<ge> Threshold_I1 st
       then (let st = st\<lparr>SPKI := Fin 0.125 * m + Fin 0.875 * SPKI st\<rparr>
             in ebind (py_get (probable_peaks st) ind) (\<lambda>p.
                  if Fin (of_int p) > Threshold_F1 st
                  then ebind (py_get (b_pass st) ind) (\<lambda>b.
                         Inr (st\<lparr>SPKF := Fin 0.125 * b + Fin 0.875 * SPKF st,
                                 r_locs := r_locs st @ [p]\<rparr>))
                  else ebind (py_get (b_pass st) ind) (\<lambda>b.
                         Inr (st\<lparr>NPKF := Fin 0.125 * b + Fin 0.875 * NPKF st\<rparr>))))
       else if m < Threshold_I2 st \<or> (Threshold_I2 st < m \<and> m < Threshold_I1 st)
       then (let st = st\<lparr>NPKI := Fin 0.125 * m + Fin 0.875 * NPKI st\<rparr>
             in ebind (py_get (b_pass st) ind) (\<lambda>b.
                  Inr (st\<lparr>NPKF := Fin 0.125 * b + Fin 0.875 * NPKF st\<rparr>)))
       else Inr st)"

definition update_thresholds :: "R_peak_extractor \<Rightarrow> R_peak_extractor" where
  "update_thresholds st =
     (let st = st\<lparr>Threshold_I1 := NPKI st + Fin 0.25 * (SPKI st - NPKI st)\<rparr>;
          st = st\<lparr>Threshold_F1 := NPKF st + Fin 0.25 * (SPKF st - NPKF st)\<rparr>;
          st = st\<lparr>Threshold_I2 := Fin 0.5 * Threshold_I1 st\<rparr>;
          st = st\<lparr>Threshold_F2 := Fin 0.5 * Threshold_F1 st\<rparr>
      in st\<lparr>T_wave := False\<rparr>)"

definition ecg_searchback_step ::
  "sample list \<Rightarrow> int \<Rightarrow> int \<Rightarrow> x_max_var \<times> int list \<Rightarrow> error + x_max_var \<times> int list" where
  "ecg_searchback_step signal' win_200ms r_val acc =
     (case acc of (x_max, result') \<Rightarrow>
        let coord = py_range (r_val - win_200ms)
                      (min (int (length signal')) (r_val + win_200ms + 1))
        in ebind (if length coord > 0
                  then ebind (emap (py_get signal') coord) (\<lambda>vals.
                       ebind (py_max vals) (\<lambda>mx.
                         case find (\<lambda>pv. feq (snd pv) mx) (zip coord vals) of
                           Some pv \<Rightarrow> Inr (Pos (fst pv))
                         | None \<Rightarrow> Inr x_max))
                  else Inr IsNone)
             (\<lambda>x_max. case x_max of
                 Unbound \<Rightarrow> Inl UnboundLocalError
               | IsNone \<Rightarrow> Inr (x_max, result')
               | Pos p \<Rightarrow> Inr (x_max, result' @ [p])))"

definition ecg_searchback :: "R_peak_extractor \<Rightarrow> error + R_peak_extractor" where
  "ecg_searchback st =
     (let st = st\<lparr>r_locs := np_unique (r_locs st)\<rparr>;
          win_200ms = py_round (0.2 * samp_freq st)
      in ebind (efold (ecg_searchback_step (signal st) win_200ms) (r_locs st)
                  (Unbound, result st))
           (\<lambda>acc. Inr (st\<lparr>result := snd acc\<rparr>)))"

text \<open>Lines 462 to 469 of \<open>find_r_peaks\<close>: the probable peak of a candidate.\<close>

definition probable_peak :: "int \<Rightarrow> R_peak_extractor \<Rightarrow> error + R_peak_extractor" where
  "probable_peak peak_val st =
     (let win_300ms = py_range (max 0 (peak_val - win_150ms st))
                        (min (peak_val + win_150ms st) (int (length (b_pass st)) - 1))
      in ebind (emap (py_get (b_pass st)) win_300ms) (\<lambda>vals.
         ebind (if vals = [] then Inr (Fin 0) else py_max vals) (\<lambda>max_val.
           if \<not> feq max_val (Fin 0)
           then (case nonzero (\<lambda>v. feq v max_val) (b_pass st) of
                   [] \<Rightarrow> Inl IndexError
                 | k # _ \<Rightarrow> Inr (st\<lparr>probable_peaks := probable_peaks st @ [k]\<rparr>))
           else Inr st)))"

definition find_r_peaks_step :: "int \<Rightarrow> R_peak_extractor \<Rightarrow> error + R_peak_extractor" where
  "find_r_peaks_step ind st =
     ebind (py_get (peaks st) ind) (\<lambda>peak_val.
     ebind (probable_peak peak_val st) (\<lambda>st.
     ebind (if ind < int (length (probable_peaks st)) \<and> ind \<noteq> 0
            then ebind (adjust_rr_interval ind st) (\<lambda>st.
                   let st = (if RR_Average1 st < RR_Low_Limit st
                                \<or> RR_Average1 st > RR_Missed_Limit st
                             then st\<lparr>Threshold_I1 := Threshold_I1 st / Fin 2,
                                     Threshold_F1 := Threshold_F1 st / Fin 2\<rparr>
                             else st)
                   in ebind (py_get (RR1 st) (- 1)) (\<lambda>RRn.
                      ebind (py_round_sample (RRn * Fin (samp_freq st))) (\<lambda>sb_win.
                      ebind (searchback peak_val RRn sb_win st) (\<lambda>st.
                        find_t_wave peak_val RRn ind (ind - 1) st))))
            else adjust_thresholds peak_val ind st)
       (\<lambda>st. Inr (update_thresholds st))))"

definition find_r_peaks ::
  "(sample list \<Rightarrow> sample list) \<Rightarrow> R_peak_extractor \<Rightarrow> error + R_peak_extractor" where
  "find_r_peaks conv st =
     ebind (approx_peak conv st) (\<lambda>st.
     ebind (efold find_r_peaks_step (py_range 0 (int (length (peaks st)))) st) (\<lambda>st.
       ecg_searchback st))"

section \<open>The beat windower (\<open>extract_beats\<close>)\<close>

text \<open>Lines 513 and 515: keep the positive indices, then drop the first of them.\<close>

definition kept_peaks :: "int list \<Rightarrow> int list" where
  "kept_peaks res = drop 1 (filter (\<lambda>r. r > 0) res)"

definition left_bound :: "real \<Rightarrow> real \<Rightarrow> int" where
  "left_bound n_seconds4beat freq = py_int (n_seconds4beat * freq * 1 / 4)"

definition right_bound :: "real \<Rightarrow> real \<Rightarrow> int" where
  "right_bound n_seconds4beat freq = py_int (n_seconds4beat * freq * 3 / 4)"

definition curr_beats :: "sample list \<Rightarrow> int \<Rightarrow> int \<Rightarrow> int list \<Rightarrow> sample list list" where
  "curr_beats lead lb rb res =
     fold (\<lambda>r_peak beats.
             if r_peak + rb \<ge> int (length lead) \<or> r_peak - lb < 0 then beats
             else beats @ [py_slice lead (r_peak - lb) (r_peak + rb)])
       res []"

text \<open>The heart-rate statistics computed after the loop are never returned and raise
  nothing (NumPy returns \<open>nan\<close> there); they and the plot are left out.\<close>

definition extract_beats ::
  "(sample list \<Rightarrow> sample list) \<Rightarrow> sample list list \<Rightarrow> real \<Rightarrow> real
     \<Rightarrow> error + sample list list list" where
  "extract_beats conv denoised_record freq n_seconds4beat =
     (let lb = left_bound n_seconds4beat freq; rb = right_bound n_seconds4beat freq
      in emap (\<lambda>i.
           ebind (py_get denoised_record i) (\<lambda>lead.
           ebind (solve freq lead) (\<lambda>qrs.
           ebind (find_r_peaks conv (R_peak_extractor_init lead freq qrs)) (\<lambda>st.
             Inr (curr_beats lead lb rb (kept_peaks (result st)))))))
         (py_range 0 12))"

text \<open>The exact convolution that the \<open>fftconvolve\<close> call approximates: a centred sum of
  25 samples, each weighted \<open>1/25\<close>, cut at the ends of the signal. It is an instance of
  \<open>conv\<close> for concrete runs.\<close>

definition centred_mean_25 :: "sample list \<Rightarrow> sample list" where
  "centred_mean_25 xs =
     map (\<lambda>i. np_sum (map (\<lambda>j. xs ! j * Fin (1 / 25)) [i - 12..<min (length xs) (i + 13)]))
       [0..<length xs]"

text \<open>Vocabulary for the final refinement: \<open>p\<close> is a position of the window
  \<open>coord\<close>, every position of the window holds a finite sample no greater than the one
  at \<open>p\<close>, and every earlier position holds a smaller one. Positions are read as the
  source reads them, a negative one from the end of the signal.\<close>

definition first_max_of_window :: "sample list \<Rightarrow> int list \<Rightarrow> int \<Rightarrow> bool" where
  "first_max_of_window sig coord p \<longleftrightarrow>
     p \<in> set coord
     \<and> (\<forall>q \<in> set coord. \<exists>a b. py_get sig q = Inr (Fin a) \<and> py_get sig p = Inr (Fin b)
            \<and> a \<le> b \<and> (q < p \<longrightarrow> a < b))"

section \<open>Basic facts about the Python operations\<close>

lemmas sample_ops =
  plus_sample_def uminus_sample_def minus_sample_def times_sample_def divide_sample_def
  less_sample_def less_eq_sample_def

lemma ebind_eq_Inr: "ebind m f = Inr y \<longleftrightarrow> (\<exists>x. m = Inr x \<and> f x = Inr y)"
  by (cases m) auto


lemma efold_total:
  assumes "I s"
    and "\<And>x t. x \<in> set xs \<Longrightarrow> I t \<Longrightarrow> \<exists>t'. f x t = Inr t' \<and> I t'"
  shows "\<exists>s'. efold f xs s = Inr s' \<and> I s'"
  using assms
proof (induction xs arbitrary: s)
  case Nil
  then show ?case by simp
next
  case (Cons x xs)
  from Cons.prems obtain t where t: "f x s = Inr t" "I t"
    by (metis list.set_intros(1))
  from Cons.IH [OF t(2)] Cons.prems(2) obtain s' where "efold f xs t = Inr s'" "I s'"
    by (metis list.set_intros(2))
  with t show ?case by auto
qed









lemma band_pass_filter_empty: "band_pass_filter [] = Inl ValueError"
  by (simp add: band_pass_filter_def py_max_def)



lemma set_py_range: "set (py_range a b) = {a..<b}"
  by (auto simp: py_range_def)










section \<open>The filter cascade: lengths and the zero divisor\<close>

lemma low_pass_step_zeros:
  "i < n \<Longrightarrow> low_pass_step (replicate n (Fin 0)) i (replicate n (Fin 0)) = replicate n (Fin 0)"
  by (simp add: low_pass_step_def Let_def sample_ops list_update_same_conv)

lemma high_pass_step_zeros:
  "i < n \<Longrightarrow> high_pass_step (replicate n (Fin 0)) i (replicate n (Fin 0)) = replicate n (Fin 0)"
  by (simp add: high_pass_step_def Let_def sample_ops list_update_same_conv)

lemma fold_fixed: "(\<And>x. x \<in> set xs \<Longrightarrow> f x s = s) \<Longrightarrow> fold f xs s = s"
  by (induction xs) auto

lemma py_max_zeros: "py_max (replicate (Suc n) (Fin 0)) = Inr (Fin 0)"
proof -
  have "fold (\<lambda>item m. if item > m then item else m) (replicate n (Fin 0)) (Fin 0) = Fin 0"
    by (rule fold_fixed) (simp add: sample_ops)
  then show ?thesis by (simp add: py_max_def)
qed

lemma py_min_zeros: "py_min (replicate (Suc n) (Fin 0)) = Inr (Fin 0)"
proof -
  have "fold (\<lambda>item m. if item < m then item else m) (replicate n (Fin 0)) (Fin 0) = Fin 0"
    by (rule fold_fixed) (simp add: sample_ops)
  then show ?thesis by (simp add: py_min_def)
qed




text \<open>
  Claim C4. The bandpass stage has no check of its divisor. For an all-zero signal of
  non-zero length the divisor \<open>max_val\<close> is zero, the division is performed, and the
  stage returns a signal of that length whose samples are all \<open>NaN\<close>; nothing is raised.
  The empty signal raises \<open>ValueError\<close>, from \<open>max\<close> of an empty sequence.
\<close>

theorem band_pass_filter_zeros:
  "band_pass_filter (replicate (Suc n) (Fin 0)) = Inr (replicate (Suc n) NaN)
   \<and> band_pass_filter (replicate 0 (Fin 0)) = Inl ValueError"
proof
  show "band_pass_filter (replicate 0 (Fin 0)) = Inl ValueError"
    by (simp add: band_pass_filter_empty)
next
  let ?z = "replicate (Suc n) (Fin 0)"
  have len: "length ?z = Suc n" by simp
  have lo: "fold (low_pass_step ?z) [0..<length ?z] ?z = ?z"
  proof (rule fold_fixed)
    fix i assume "i \<in> set [0..<length ?z]"
    then have "i < Suc n" by auto
    then show "low_pass_step ?z i ?z = ?z" by (rule low_pass_step_zeros)
  qed
  have hi: "fold (high_pass_step ?z) [0..<length ?z] ?z = ?z"
  proof (rule fold_fixed)
    fix i assume "i \<in> set [0..<length ?z]"
    then have "i < Suc n" by auto
    then show "high_pass_step ?z i ?z = ?z" by (rule high_pass_step_zeros)
  qed
  have "band_pass_filter ?z = Inr (map (\<lambda>x. x / py_max2 (Fin 0) (- Fin 0)) ?z)"
    unfolding band_pass_filter_def Let_def lo hi py_max_zeros py_min_zeros by simp
  also have "map (\<lambda>x. x / py_max2 (Fin 0) (- Fin 0)) ?z = replicate (Suc n) NaN"
    by (simp add: py_max2_def sample_ops)
  finally show "band_pass_filter ?z = Inr (replicate (Suc n) NaN)" .
qed

text \<open>At three zero samples the stage returns three \<open>NaN\<close> samples rather than raising.\<close>

theorem band_pass_filter_zeros_example:
  "band_pass_filter [Fin 0, Fin 0, Fin 0] = Inr [NaN, NaN, NaN]"
  by code_simp

section \<open>Signals too short for a candidate\<close>









section \<open>The beat windower\<close>

lemma curr_beats_fold:
  "fold (\<lambda>r_peak beats.
             if r_peak + rb \<ge> int (length lead) \<or> r_peak - lb < 0 then beats
             else beats @ [py_slice lead (r_peak - lb) (r_peak + rb)]) res acc
   = acc @ map (\<lambda>r. py_slice lead (r - lb) (r + rb))
            (filter (\<lambda>r. \<not> (r + rb \<ge> int (length lead) \<or> r - lb < 0)) res)"
  by (induction res arbitrary: acc) auto

lemma curr_beats_eq:
  "curr_beats lead lb rb res =
     map (\<lambda>r. py_slice lead (r - lb) (r + rb))
       (filter (\<lambda>r. \<not> (r + rb \<ge> int (length lead) \<or> r - lb < 0)) res)"
  unfolding curr_beats_def using curr_beats_fold [where acc = "[]"] by simp



lemma emap_Inr_set:
  "emap g xs = Inr ys \<Longrightarrow> y \<in> set ys \<Longrightarrow> \<exists>x \<in> set xs. g x = Inr y"
  by (induction xs arbitrary: ys) (auto split: sum.splits)

lemma extract_beats_lead:
  assumes "extract_beats conv leads f n = Inr results" and "beats \<in> set results"
  shows "\<exists>lead q st'. solve f lead = Inr q
           \<and> find_r_peaks conv (R_peak_extractor_init lead f q) = Inr st'
           \<and> beats = curr_beats lead (left_bound n f) (right_bound n f) (kept_peaks (result st'))"
proof -
  let ?g = "\<lambda>i. ebind (py_get leads i) (\<lambda>lead.
           ebind (solve f lead) (\<lambda>qrs.
           ebind (find_r_peaks conv (R_peak_extractor_init lead f qrs)) (\<lambda>st.
             Inr (curr_beats lead (left_bound n f) (right_bound n f) (kept_peaks (result st))))))"
  from assms(1) have "emap ?g (py_range 0 12) = Inr results"
    by (simp add: extract_beats_def Let_def)
  from emap_Inr_set [OF this assms(2)] obtain i where "?g i = Inr beats" by blast
  then show ?thesis by (auto simp: ebind_eq_Inr)
qed

lemma extract_beats_short_leads:
  "extract_beats centred_mean_25 (replicate 12 [Fin 1, Fin 2, Fin 3]) 20 1 = Inr (replicate 12 [])"
  by code_simp





text \<open>
  Claim C10. \<open>extract_beats\<close> keeps the positive indices of the detector's list and
  then drops the first of them. Every kept index is positive, a non-positive index
  anywhere in the list changes nothing of what is kept, and every beat segment is the
  window of a positive index of the list. The beats \<open>extract_beats\<close> returns for a lead
  are the windows of the indices kept from the detector's result on that lead.
\<close>

theorem nonpositive_peaks_discarded:
  "(\<forall>r \<in> set (kept_peaks res). 0 < r \<and> r \<in> set res)
   \<and> kept_peaks res = drop 1 (filter (\<lambda>r. 0 < r) res)
   \<and> (z \<le> 0 \<longrightarrow> kept_peaks (xs @ z # ys) = kept_peaks (xs @ ys))
   \<and> (\<forall>beat \<in> set (curr_beats lead lb rb (kept_peaks res)).
         \<exists>r \<in> set res. 0 < r \<and> beat = py_slice lead (r - lb) (r + rb))
   \<and> (extract_beats conv leads f n = Inr results \<longrightarrow>
        (\<forall>beats \<in> set results. \<exists>lead q st'.
           solve f lead = Inr q
           \<and> find_r_peaks conv (R_peak_extractor_init lead f q) = Inr st'
           \<and> beats = curr_beats lead (left_bound n f) (right_bound n f)
                        (kept_peaks (result st'))))"
proof (intro conjI impI ballI)
  fix r assume "r \<in> set (kept_peaks res)"
  then have "r \<in> set (filter (\<lambda>r. 0 < r) res)"
    unfolding kept_peaks_def by (rule in_set_dropD)
  then show "0 < r" and "r \<in> set res" by simp_all
next
  show "kept_peaks res = drop 1 (filter (\<lambda>r. 0 < r) res)" by (simp add: kept_peaks_def)
next
  assume "z \<le> 0"
  then show "kept_peaks (xs @ z # ys) = kept_peaks (xs @ ys)" by (simp add: kept_peaks_def)
next
  fix beat assume "beat \<in> set (curr_beats lead lb rb (kept_peaks res))"
  then obtain r where "r \<in> set (kept_peaks res)" and b: "beat = py_slice lead (r - lb) (r + rb)"
    unfolding curr_beats_eq by auto
  then have "r \<in> set (filter (\<lambda>r. 0 < r) res)"
    unfolding kept_peaks_def by (meson in_set_dropD)
  with b show "\<exists>r \<in> set res. 0 < r \<and> beat = py_slice lead (r - lb) (r + rb)" by auto
next
  fix beats
  assume "extract_beats conv leads f n = Inr results" and "beats \<in> set results"
  then show "\<exists>lead q st'. solve f lead = Inr q
           \<and> find_r_peaks conv (R_peak_extractor_init lead f q) = Inr st'
           \<and> beats = curr_beats lead (left_bound n f) (right_bound n f) (kept_peaks (result st'))"
    by (rule extract_beats_lead)
qed

text \<open>The theorem at a list that starts with a negative and a zero index.\<close>

theorem nonpositive_peaks_discarded_witness:
  "kept_peaks [- 1, 0, 3, 0, 7, 9] = [7, 9]
   \<and> (- 1 :: int) \<le> 0
   \<and> kept_peaks ([] @ (- 1) # [0, 3, 0, 7, 9]) = kept_peaks ([] @ [0, 3, 0, 7, 9])
   \<and> curr_beats (map Fin [0, 1, 2, 3, 4, 5, 6, 7, 8, 9, 10, 11, 12]) 1 3 (kept_peaks [- 1, 0, 3, 0, 7, 9])
       = [map Fin [6, 7, 8, 9], map Fin [8, 9, 10, 11]]
   \<and> extract_beats centred_mean_25 (replicate 12 [Fin 1, Fin 2, Fin 3]) 20 1 = Inr (replicate 12 [])"
proof -
  have h: "(- 1 :: int) \<le> 0" by simp
  from nonpositive_peaks_discarded [of "[- 1, 0, 3, 0, 7, 9]" "- 1" "[]" "[0, 3, 0, 7, 9]"] h
  have "kept_peaks ([] @ (- 1) # [0, 3, 0, 7, 9]) = kept_peaks ([] @ [0, 3, 0, 7, 9])"
    by blast
  moreover have "kept_peaks [- 1, 0, 3, 0, 7, 9] = [7, 9]" by code_simp
  moreover have "curr_beats (map Fin [0, 1, 2, 3, 4, 5, 6, 7, 8, 9, 10, 11, 12]) 1 3 (kept_peaks [- 1, 0, 3, 0, 7, 9])
       = [map Fin [6, 7, 8, 9], map Fin [8, 9, 10, 11]]" by code_simp
  ultimately show ?thesis using h extract_beats_short_leads by blast
qed

section \<open>The final refinement (\<open>ecg_searchback\<close>)\<close>

lemma emap_Inr_nth:
  "emap f xs = Inr ys \<Longrightarrow> length ys = length xs \<and> (\<forall>i<length xs. f (xs ! i) = Inr (ys ! i))"
proof (induction xs arbitrary: ys)
  case Nil
  then show ?case by simp
next
  case (Cons x xs)
  from Cons.prems obtain y zs where y: "f x = Inr y" and zs: "emap f xs = Inr zs"
    and ys: "ys = y # zs"
    by (auto split: sum.splits)
  from Cons.IH [OF zs] y ys show ?case
    by (auto simp: nth_Cons split: nat.splits)
qed

lemma emap_total:
  "(\<And>x. x \<in> set xs \<Longrightarrow> \<exists>y. f x = Inr y) \<Longrightarrow> \<exists>ys. emap f xs = Inr ys"
proof (induction xs)
  case Nil
  then show ?case by simp
next
  case (Cons x xs)
  from Cons.prems obtain y where "f x = Inr y" by auto
  moreover from Cons obtain zs where "emap f xs = Inr zs" by auto
  ultimately show ?case by simp
qed

lemma py_get_Inr_mem: "py_get xs i = Inr v \<Longrightarrow> v \<in> set xs"
  by (auto simp: py_get_def Let_def split: if_splits)

lemma fold_max_Fin:
  assumes "\<forall>v \<in> set r. is_Fin v"
  shows "\<exists>m. fold (\<lambda>item m. if item > m then item else m) r (Fin x) = Fin m
           \<and> (m = x \<or> Fin m \<in> set r) \<and> x \<le> m \<and> (\<forall>v \<in> set r. the_fin v \<le> m)"
  using assms
proof (induction r arbitrary: x)
  case Nil
  then show ?case by simp
next
  case (Cons v r)
  from Cons.prems obtain y where v: "v = Fin y" by (cases v) auto
  let ?x = "if x < y then y else x"
  have step: "(if v > Fin x then v else Fin x) = Fin ?x"
    by (simp add: v less_sample_def)
  from Cons.prems have "\<forall>v \<in> set r. is_Fin v" by simp
  from Cons.IH [OF this, of ?x] obtain m where
    m: "fold (\<lambda>item m. if item > m then item else m) r (Fin ?x) = Fin m"
      "m = ?x \<or> Fin m \<in> set r" "?x \<le> m" "\<forall>v \<in> set r. the_fin v \<le> m"
    by blast
  have "fold (\<lambda>item m. if item > m then item else m) (v # r) (Fin x) = Fin m"
    using m(1) step by simp
  moreover have "m = x \<or> Fin m \<in> set (v # r)"
    using m(2) v by (auto split: if_splits)
  moreover have "x \<le> m" using m(3) by (auto split: if_splits)
  moreover have "\<forall>u \<in> set (v # r). the_fin u \<le> m"
    using m(3,4) v by (auto split: if_splits)
  ultimately show ?case by blast
qed

lemma py_max_all_Fin:
  assumes "vals \<noteq> []" and "\<forall>v \<in> set vals. is_Fin v"
  shows "\<exists>m. py_max vals = Inr (Fin m) \<and> Fin m \<in> set vals \<and> (\<forall>v \<in> set vals. the_fin v \<le> m)"
proof -
  from assms obtain x r where vals: "vals = Fin x # r"
    by (cases vals) (auto simp: is_Fin_def)
  with assms(2) have "\<forall>v \<in> set r. is_Fin v" by simp
  from fold_max_Fin [OF this, of x] obtain m where
    m: "fold (\<lambda>item m. if item > m then item else m) r (Fin x) = Fin m"
      "m = x \<or> Fin m \<in> set r" "x \<le> m" "\<forall>v \<in> set r. the_fin v \<le> m"
    by blast
  have "py_max vals = Inr (Fin m)" by (simp add: py_max_def vals m(1))
  moreover have "Fin m \<in> set vals" using m(2) vals by auto
  moreover have "\<forall>v \<in> set vals. the_fin v \<le> m" using m(3,4) vals by auto
  ultimately show ?thesis by blast
qed

lemma sorted_wrt_py_range: "sorted_wrt (<) (py_range a b)"
  by (simp add: py_range_def strict_sorted_iff)

lemma window_search:
  assumes fin: "list_all is_Fin sig" and ne: "coord \<noteq> []"
    and vals: "emap (py_get sig) coord = Inr vals" and srt: "sorted_wrt (<) coord"
  shows "\<exists>p. ebind (py_max vals) (\<lambda>mx.
                case find (\<lambda>pv. feq (snd pv) mx) (zip coord vals) of
                  Some pv \<Rightarrow> Inr (Pos (fst pv))
                | None \<Rightarrow> Inr x) = Inr (Pos p)
            \<and> first_max_of_window sig coord p"
proof -
  from emap_Inr_nth [OF vals] have len: "length vals = length coord"
    and nth: "\<And>i. i < length coord \<Longrightarrow> py_get sig (coord ! i) = Inr (vals ! i)"
    by auto
  have allfin: "\<forall>v \<in> set vals. is_Fin v"
  proof
    fix v assume "v \<in> set vals"
    then obtain i where "i < length vals" "v = vals ! i" by (auto simp: in_set_conv_nth)
    with nth len have "py_get sig (coord ! i) = Inr v" by simp
    then have "v \<in> set sig" by (rule py_get_Inr_mem)
    with fin show "is_Fin v" by (simp add: list_all_iff)
  qed
  from ne len have "vals \<noteq> []" by auto
  from py_max_all_Fin [OF this allfin] obtain m where
    m: "py_max vals = Inr (Fin m)" "Fin m \<in> set vals" "\<forall>v \<in> set vals. the_fin v \<le> m"
    by blast
  let ?P = "\<lambda>pv. feq (snd pv) (Fin m)"
  from m(2) obtain k where k: "k < length vals" "vals ! k = Fin m"
    by (auto simp: in_set_conv_nth)
  then have kz: "k < length (zip coord vals)" using len by simp
  have "?P (zip coord vals ! k)" using k len by simp
  with nth_mem [OF kz] have "find ?P (zip coord vals) \<noteq> None"
    unfolding find_None_iff by blast
  then obtain pv where pv: "find ?P (zip coord vals) = Some pv" by auto
  then obtain i where i: "i < length (zip coord vals)" "?P (zip coord vals ! i)"
    "pv = zip coord vals ! i" "\<forall>j<i. \<not> ?P (zip coord vals ! j)"
    by (auto simp: find_Some_iff)
  from i(1) len have il: "i < length coord" by simp
  from i(3) il len have p: "fst pv = coord ! i" by simp
  from allfin il len obtain b where b: "vals ! i = Fin b"
    by (metis nth_mem sample.collapse(1))
  with i(2) il len have bm: "b = m" by simp
  have "first_max_of_window sig coord (coord ! i)"
    unfolding first_max_of_window_def
  proof (intro conjI ballI)
    show "coord ! i \<in> set coord" using il by simp
  next
    fix q assume "q \<in> set coord"
    then obtain j where j: "j < length coord" "q = coord ! j" by (auto simp: in_set_conv_nth)
    from allfin j(1) len obtain a where a: "vals ! j = Fin a"
      by (metis nth_mem sample.collapse(1))
    have am: "a \<le> m" using m(3) a j(1) len by (metis nth_mem sample.sel)
    have "q < coord ! i \<longrightarrow> a < m"
    proof
      assume "q < coord ! i"
      have "j < i"
      proof (rule ccontr)
        assume "\<not> j < i"
        then have "i = j \<or> i < j" by auto
        then have "coord ! i \<le> coord ! j"
          using sorted_wrt_nth_less [OF srt, of i j] j(1) by auto
        with \<open>q < coord ! i\<close> j(2) show False by simp
      qed
      with i(4) have "\<not> ?P (zip coord vals ! j)" by simp
      with a j(1) len have "a \<noteq> m" by simp
      with am show "a < m" by simp
    qed
    with nth [OF j(1)] nth [OF il] a b bm am j(2)
    show "\<exists>a b. py_get sig q = Inr (Fin a) \<and> py_get sig (coord ! i) = Inr (Fin b)
            \<and> a \<le> b \<and> (q < coord ! i \<longrightarrow> a < b)"
      by auto
  qed
  with m(1) pv p show ?thesis by simp
qed

lemma first_max_of_window_mono:
  assumes "first_max_of_window sig (py_range (r1 - w) (min n (r1 + w + 1))) p1"
    and "first_max_of_window sig (py_range (r2 - w) (min n (r2 + w + 1))) p2"
    and "r1 \<le> r2"
  shows "p1 \<le> p2"
proof (rule ccontr)
  assume "\<not> p1 \<le> p2"
  then have lt: "p2 < p1" by simp
  from assms(1) have p1: "r1 - w \<le> p1" "p1 < min n (r1 + w + 1)"
    by (auto simp: first_max_of_window_def set_py_range)
  from assms(2) have p2: "r2 - w \<le> p2" "p2 < min n (r2 + w + 1)"
    by (auto simp: first_max_of_window_def set_py_range)
  have "p2 \<in> set (py_range (r1 - w) (min n (r1 + w + 1)))"
    using p1 p2 lt assms(3) by (auto simp: set_py_range)
  with assms(1) lt obtain a b where 1: "py_get sig p2 = Inr (Fin a)" "py_get sig p1 = Inr (Fin b)" "a < b"
    unfolding first_max_of_window_def by blast
  have "p1 \<in> set (py_range (r2 - w) (min n (r2 + w + 1)))"
    using p1 p2 lt assms(3) by (auto simp: set_py_range)
  with assms(2) obtain a' b' where 2: "py_get sig p1 = Inr (Fin a')" "py_get sig p2 = Inr (Fin b')" "a' \<le> b'"
    unfolding first_max_of_window_def by blast
  from 1 2 show False by simp
qed

lemma ecg_searchback_step_result:
  assumes fin: "list_all is_Fin sig"
    and step: "ecg_searchback_step sig w r (x, res) = Inr (x', res')"
  shows "res' = res
       \<or> (\<exists>p. res' = res @ [p]
             \<and> first_max_of_window sig (py_range (r - w) (min (int (length sig)) (r + w + 1))) p)"
proof -
  let ?coord = "py_range (r - w) (min (int (length sig)) (r + w + 1))"
  show ?thesis
  proof (cases "?coord = []")
    case True
    with step show ?thesis by (simp add: ecg_searchback_step_def)
  next
    case False
    with step obtain vals where vals: "emap (py_get sig) ?coord = Inr vals"
      by (cases "emap (py_get sig) ?coord") (auto simp: ecg_searchback_step_def Let_def)
    from window_search [OF fin False vals sorted_wrt_py_range, of x] obtain p where
      p: "ebind (py_max vals) (\<lambda>mx.
                case find (\<lambda>pv. feq (snd pv) mx) (zip ?coord vals) of
                  Some pv \<Rightarrow> Inr (Pos (fst pv))
                | None \<Rightarrow> Inr x) = Inr (Pos p)"
      and fm: "first_max_of_window sig ?coord p"
      by blast
    from step False have "res' = res @ [p]"
      by (simp add: ecg_searchback_step_def Let_def vals p)
    with fm show ?thesis by blast
  qed
qed

lemma ecg_searchback_step_total:
  assumes fin: "list_all is_Fin sig" and lo: "- int (length sig) \<le> r - w"
  shows "\<exists>acc'. ecg_searchback_step sig w r acc = Inr acc'"
proof -
  obtain x res where acc: "acc = (x, res)" by (cases acc)
  let ?coord = "py_range (r - w) (min (int (length sig)) (r + w + 1))"
  show ?thesis
  proof (cases "?coord = []")
    case True
    then show ?thesis by (simp add: ecg_searchback_step_def acc)
  next
    case False
    have "\<exists>vals. emap (py_get sig) ?coord = Inr vals"
    proof (rule emap_total)
      fix q assume "q \<in> set ?coord"
      then have "r - w \<le> q" "q < int (length sig)" by (auto simp: set_py_range)
      with lo show "\<exists>y. py_get sig q = Inr y" by (auto simp: py_get_def Let_def)
    qed
    then obtain vals where vals: "emap (py_get sig) ?coord = Inr vals" by blast
    from window_search [OF fin False vals sorted_wrt_py_range, of x] obtain p where
      p: "ebind (py_max vals) (\<lambda>mx.
                case find (\<lambda>pv. feq (snd pv) mx) (zip ?coord vals) of
                  Some pv \<Rightarrow> Inr (Pos (fst pv))
                | None \<Rightarrow> Inr x) = Inr (Pos p)"
      by blast
    from False show ?thesis
      by (simp add: ecg_searchback_step_def Let_def acc vals p)
  qed
qed

lemma ecg_searchback_fold_sorted:
  assumes fin: "list_all is_Fin sig"
    and "efold (ecg_searchback_step sig w) rs (x, res) = Inr (x', res')"
    and "sorted rs" and "sorted res"
    and "\<forall>p \<in> set res. \<exists>r'. (\<forall>r \<in> set rs. r' \<le> r)
           \<and> first_max_of_window sig (py_range (r' - w) (min (int (length sig)) (r' + w + 1))) p"
  shows "sorted res'"
  using assms(2-)
proof (induction rs arbitrary: x res)
  case Nil
  then show ?case by simp
next
  case (Cons r rs)
  from Cons.prems(1) obtain x1 res1 where
    s1: "ecg_searchback_step sig w r (x, res) = Inr (x1, res1)"
    and rest: "efold (ecg_searchback_step sig w) rs (x1, res1) = Inr (x', res')"
    by (auto split: sum.splits)
  from Cons.prems(2) have srs: "sorted rs" and rle: "\<forall>r' \<in> set rs. r \<le> r'" by simp_all
  let ?W = "\<lambda>r'. py_range (r' - w) (min (int (length sig)) (r' + w + 1))"
  from ecg_searchback_step_result [OF fin s1]
  consider "res1 = res" | p where "res1 = res @ [p]" "first_max_of_window sig (?W r) p"
    by blast
  then have "sorted res1 \<and> (\<forall>p \<in> set res1. \<exists>r'. (\<forall>r \<in> set rs. r' \<le> r)
           \<and> first_max_of_window sig (?W r') p)"
  proof cases
    case 1
    with Cons.prems(3,4) show ?thesis by auto
  next
    case 2
    have "\<forall>q \<in> set res. q \<le> p"
    proof
      fix q assume "q \<in> set res"
      with Cons.prems(4) obtain r' where "r' \<le> r" "first_max_of_window sig (?W r') q"
        by auto
      with 2(2) show "q \<le> p" using first_max_of_window_mono by blast
    qed
    with Cons.prems(3) 2(1) have "sorted res1" by (simp add: sorted_append)
    moreover have "\<forall>p \<in> set res1. \<exists>r'. (\<forall>r \<in> set rs. r' \<le> r)
           \<and> first_max_of_window sig (?W r') p"
    proof
      fix q assume "q \<in> set res1"
      with 2(1) consider "q \<in> set res" | "q = p" by auto
      then show "\<exists>r'. (\<forall>r \<in> set rs. r' \<le> r) \<and> first_max_of_window sig (?W r') q"
      proof cases
        case 1
        with Cons.prems(4) show ?thesis by auto
      next
        case 2
        with \<open>first_max_of_window sig (?W r) p\<close> rle show ?thesis by auto
      qed
    qed
    ultimately show ?thesis by simp
  qed
  with Cons.IH [OF rest srs] show ?case by blast
qed

lemma ecg_searchback_fold_length:
  assumes fin: "list_all is_Fin sig"
    and "efold (ecg_searchback_step sig w) rs (x, res) = Inr (x', res')"
  shows "length res' \<le> length res + length rs"
  using assms(2)
proof (induction rs arbitrary: x res)
  case Nil
  then show ?case by simp
next
  case (Cons r rs)
  from Cons.prems obtain x1 res1 where
    s1: "ecg_searchback_step sig w r (x, res) = Inr (x1, res1)"
    and rest: "efold (ecg_searchback_step sig w) rs (x1, res1) = Inr (x', res')"
    by (auto split: sum.splits)
  from ecg_searchback_step_result [OF fin s1] have "length res1 \<le> length res + 1" by auto
  with Cons.IH [OF rest] show ?case by simp
qed

lemma np_unique_strict: "sorted_wrt (<) (np_unique xs) \<and> set (np_unique xs) = set xs"
  by (simp add: np_unique_def strict_sorted_iff)

text \<open>
  Claim C5. \<open>ecg_searchback\<close> removes duplicates from the accepted indices, not from the
  list it produces. For a raw signal of finite samples, whenever it returns, the accepted
  indices it keeps are strictly ascending with the same members as before, and the list
  it produces is ascending, not necessarily strictly, with at most one entry per kept
  index. It returns whenever no window starts more than the length of the signal before
  its first sample.
\<close>

theorem ecg_searchback_ascending:
  "(list_all is_Fin (signal st) \<and> result st = [] \<and> ecg_searchback st = Inr st' \<longrightarrow>
      sorted_wrt (<) (r_locs st') \<and> set (r_locs st') = set (r_locs st)
      \<and> sorted (result st') \<and> length (result st') \<le> length (r_locs st'))
   \<and> (list_all is_Fin (signal st)
       \<and> (\<forall>r \<in> set (r_locs st).
             - int (length (signal st)) \<le> r - py_round (0.2 * samp_freq st)) \<longrightarrow>
      (\<exists>st'. ecg_searchback st = Inr st'))"
proof (intro conjI impI)
  assume a: "list_all is_Fin (signal st) \<and> result st = [] \<and> ecg_searchback st = Inr st'"
  let ?w = "py_round (0.2 * samp_freq st)"
  from a obtain acc where
    f: "efold (ecg_searchback_step (signal st) ?w) (np_unique (r_locs st)) (Unbound, []) = Inr acc"
    and st': "st' = st\<lparr>r_locs := np_unique (r_locs st), result := snd acc\<rparr>"
    by (auto simp: ecg_searchback_def Let_def ebind_eq_Inr)
  from st' show "sorted_wrt (<) (r_locs st')" "set (r_locs st') = set (r_locs st)"
    by (simp_all add: np_unique_strict)
  obtain x' res' where acc: "acc = (x', res')" by (cases acc)
  have "sorted (np_unique (r_locs st))" by (simp add: np_unique_def)
  with ecg_searchback_fold_sorted [OF _ f [unfolded acc]] a have "sorted res'" by simp
  with st' acc show "sorted (result st')" by simp
  from ecg_searchback_fold_length [OF _ f [unfolded acc]] a
  have "length res' \<le> length (np_unique (r_locs st))" by simp
  with st' acc show "length (result st') \<le> length (r_locs st')" by simp
next
  assume a: "list_all is_Fin (signal st)
       \<and> (\<forall>r \<in> set (r_locs st).
             - int (length (signal st)) \<le> r - py_round (0.2 * samp_freq st))"
  let ?w = "py_round (0.2 * samp_freq st)"
  have "\<exists>acc. efold (ecg_searchback_step (signal st) ?w) (np_unique (r_locs st)) (Unbound, result st)
           = Inr acc \<and> True"
  proof (rule efold_total)
    fix r t assume "r \<in> set (np_unique (r_locs st))"
    then have "- int (length (signal st)) \<le> r - ?w" using a by (simp add: np_unique_strict)
    with a show "\<exists>t'. ecg_searchback_step (signal st) ?w r t = Inr t' \<and> True"
      using ecg_searchback_step_total by blast
  qed simp
  then show "\<exists>st'. ecg_searchback st = Inr st'"
    by (auto simp: ecg_searchback_def Let_def)
qed

text \<open>The theorem at a signal of seven samples with one pulse and the accepted indices
  3, 2, 3 at 5 Hz (a window of one sample to each side).\<close>

theorem ecg_searchback_ascending_witness:
  "(let st = (R_peak_extractor_init [Fin 0, Fin 0, Fin 5, Fin 0, Fin 0, Fin 0, Fin 0] 5
                \<lparr>bpass = [], der = [], sqr = [], mwin = []\<rparr>)\<lparr>r_locs := [3, 2, 3]\<rparr>;
        st' = st\<lparr>r_locs := [2, 3], result := [2, 2]\<rparr>
    in list_all is_Fin (signal st) \<and> result st = []
       \<and> list_all (\<lambda>r. - int (length (signal st)) \<le> r - py_round (0.2 * samp_freq st))
            (r_locs st)
       \<and> ecg_searchback st = Inr st'
       \<and> sorted_wrt (<) (r_locs st') \<and> set (r_locs st') = set (r_locs st)
       \<and> sorted (result st') \<and> length (result st') \<le> length (r_locs st'))"
proof -
  let ?st = "(R_peak_extractor_init [Fin 0, Fin 0, Fin 5, Fin 0, Fin 0, Fin 0, Fin 0] 5
                \<lparr>bpass = [], der = [], sqr = [], mwin = []\<rparr>)\<lparr>r_locs := [3, 2, 3]\<rparr>"
  let ?st' = "?st\<lparr>r_locs := [2, 3], result := [2, 2]\<rparr>"
  have h1: "list_all is_Fin (signal ?st)" by code_simp
  have h2: "result ?st = []" by code_simp
  have h3: "list_all (\<lambda>r. - int (length (signal ?st)) \<le> r - py_round (0.2 * samp_freq ?st))
      (r_locs ?st)"
    by code_simp
  have h4: "ecg_searchback ?st = Inr ?st'" by code_simp
  from ecg_searchback_ascending [of ?st ?st'] h1 h2 h4
  have "sorted_wrt (<) (r_locs ?st') \<and> set (r_locs ?st') = set (r_locs ?st)
      \<and> sorted (result ?st') \<and> length (result ?st') \<le> length (r_locs ?st')"
    by blast
  with h1 h2 h3 h4 show ?thesis unfolding Let_def by blast
qed

text \<open>As the claim is written, strictly ascending and free of duplicates, it fails: the
  accepted indices 2 and 3 have the same raw maximum in their windows, and the list
  produced is 2, 2.\<close>

theorem ecg_searchback_duplicates:
  "map_sum id (\<lambda>st. (r_locs st, result st))
     (ecg_searchback
        ((R_peak_extractor_init [Fin 0, Fin 0, Fin 5, Fin 0, Fin 0, Fin 0, Fin 0] 5
            \<lparr>bpass = [], der = [], sqr = [], mwin = []\<rparr>)
         \<lparr>r_locs := [3, 2, 3]\<rparr>))
   = Inr ([2, 3], [2, 2])"
  by code_simp

text \<open>
  Claim C6, at a failing input. The window of \<open>ecg_searchback\<close> is clipped at the end of
  the signal only. For the accepted index 1 at 8 Hz, a window of two samples to each side,
  the positions searched are -1, 0, 1, 2 and 3; position -1 reads the last sample, 9, the
  greatest of the five, and the index reported is -1. The claim's window, clipped to the
  signal, holds the positions 0 to 3, and its first maximum, 2, is at index 1.
\<close>

theorem ecg_searchback_negative_index:
  "map_sum id (\<lambda>st. (r_locs st, result st))
     (ecg_searchback
        ((R_peak_extractor_init [Fin 0, Fin 2, Fin 1, Fin 0, Fin 0, Fin 9] 8
            \<lparr>bpass = [], der = [], sqr = [], mwin = []\<rparr>)
         \<lparr>r_locs := [1]\<rparr>))
   = Inr ([1], [- 1])
   \<and> py_round (0.2 * 8) = 2
   \<and> py_range (1 - 2) (min 6 (1 + 2 + 1)) = [- 1, 0, 1, 2, 3]"
  by code_simp

section \<open>The detector's decisions at failing inputs\<close>

text \<open>
  Claim C1, at a failing input: a run of \<open>find_r_peaks\<close> at 8 Hz on 25 samples, smoothed
  by the exact centred mean (the integrated signal is constant, so the smoothed one rises
  up to sample 12 and falls after it). The only candidate is at 12 and its window of one sample to
  each side holds the positions 11 and 12, with the maximum 1 at position 12. The source
  looks the maximum value up in the whole bandpass signal and records the first position
  that holds it, which is 0, outside the window.
\<close>

theorem probable_peak_outside_window:
  "map_sum id (\<lambda>st. (peaks st, win_150ms st, probable_peaks st))
     (find_r_peaks centred_mean_25
        (R_peak_extractor_init (replicate 25 (Fin 0)) 8
           \<lparr>bpass = [Fin 1] @ replicate 11 (Fin 0) @ [Fin 1] @ replicate 12 (Fin 0),
            der = [], sqr = [],
            mwin = replicate 25 (Fin 1)\<rparr>))
   = Inr ([12], 1, [0])
   \<and> py_range (max 0 (12 - 1)) (min (12 + 1) (25 - 1)) = [11, 12]"
  by code_simp

text \<open>
  Claim C2, at a failing input: the call \<open>searchback(10, 0.5, round(0.5 * 8))\<close>. The
  searchback window is \<open>m_win[7:11]\<close>, its maximum 9 is at offset 2 of the window,
  sample 9 of the signal. The source reads \<open>m_win\<close> at the offset, so \<open>SPKI\<close>
  becomes \<open>0.25 * 3 + 0.75 * 4 = 15/4\<close> where the claim gives
  \<open>0.25 * 9 + 0.75 * 4 = 21/4\<close>. The bandpass window the source then takes is
  \<open>b_pass[1:2]\<close>, beside the offset and not beside sample 9; its maximum 0.9 is at
  offset 0, and the source updates \<open>SPKF\<close> from \<open>b_pass[0] = 0.5\<close> and appends the
  offset 0.
\<close>

theorem searchback_uses_window_offsets:
  "map_sum id (\<lambda>st. (SPKI st, SPKF st, r_locs st))
     (searchback 10 (Fin 0.5) 4
        ((R_peak_extractor_init (replicate 12 (Fin 0)) 8
            \<lparr>bpass = [Fin 0.5, Fin 0.9, Fin 0.3, Fin 0.2, Fin 0.1, Fin 0.1, Fin 0.1, Fin 0.1,
                      Fin 0.6, Fin 1, Fin 0.1, Fin 0],
             der = [], sqr = [],
             mwin = [Fin 0, Fin 0, Fin 3, Fin 0, Fin 0, Fin 0, Fin 0, Fin 3, Fin 0, Fin 9,
                     Fin 0, Fin 0]\<rparr>)
         \<lparr>SPKI := Fin 4, Threshold_I1 := Fin 1, Threshold_F1 := Fin 0.2,
          Threshold_F2 := Fin 0.1, RR_Missed_Limit := Fin 0.3\<rparr>))
   = Inr (Fin (15 / 4), Fin (1 / 8), [0])
   \<and> py_slice [Fin 0, Fin 0, Fin 3, Fin 0, Fin 0, Fin 0, Fin 0, Fin 3, Fin 0, Fin 9, Fin 0, Fin 0]
         (10 - 4 + 1) (10 + 1)
       = [Fin 3, Fin 0, Fin 9, Fin 0]
   \<and> Fin 0.25 * Fin 9 + Fin 0.75 * Fin 4 = Fin (21 / 4)"
  by code_simp

text \<open>
  Claim C3, at a failing input: a run of \<open>find_r_peaks\<close> at 8 Hz on 49 samples with the
  candidates 12 and 36, the first handled by \<open>adjust_thresholds\<close>, the second by
  \<open>find_t_wave\<close>. Their probable peaks are the samples 11 and 35, whose bandpass values
  -0.5 and -0.3 are negative and exceed no threshold (\<open>Threshold_F1\<close> is 0 for the first
  candidate and 1/80 in this run for the second), so the claim rejects both and updates
  \<open>NPKF\<close>. The source compares the indices 11 and 35 with
  the threshold, accepts both, and updates \<open>SPKF\<close> from \<open>b_pass[0]\<close> and
  \<open>b_pass[1]\<close>, the samples at the candidates' positions in the candidate list;
  \<open>NPKF\<close> stays 0.
\<close>

theorem acceptance_compares_index:
  "map_sum id (\<lambda>st. (peaks st, probable_peaks st, r_locs st, SPKF st, NPKF st))
     (find_r_peaks centred_mean_25
        (R_peak_extractor_init (replicate 49 (Fin 0)) 8
           \<lparr>bpass = [Fin 0.4, Fin 0.8] @ replicate 9 (Fin (- 1)) @ [Fin (- 0.5), Fin (- 0.6)]
                     @ replicate 22 (Fin (- 1)) @ [Fin (- 0.3), Fin (- 0.7)]
                     @ replicate 12 (Fin (- 1)),
            der = [], sqr = [],
            mwin = replicate 12 (Fin 3) @ replicate 13 (Fin 1) @ replicate 12 (Fin 2)
                     @ replicate 12 (Fin 3)\<rparr>))
   = Inr ([12, 36], [11, 35], [11, 35], Fin (23 / 160), Fin 0)"
  by code_simp

end
